theory Spec2Isabelle
  imports Complex_Main "HOL-Library.Word"
begin

section \<open>Background visibility gates of \<^verbatim>\<open>tools/verify_background_visibility.py\<close>\<close>

text \<open>
  Conventions of the embedding.
  \<^item> Python \<^verbatim>\<open>int\<close> is \<^typ>\<open>int\<close>; an 8-bit colour channel is \<^typ>\<open>8 word\<close>.
  \<^item> A two-dimensional numpy array is the list of its rows.
  \<^item> A Python or numpy floating-point number is a \<^typ>\<open>real\<close>: every arithmetic
    operation and comparison is the exact one, the decimal literals of the source are
    the decimal fractions they spell. The one non-number a gate can meet, the
    \<^verbatim>\<open>nan\<close> numpy returns for the mean of an empty patch, is a value of its own.
  \<^item> \<^verbatim>\<open>PIL.Image.open\<close>, \<^verbatim>\<open>cv2.GaussianBlur\<close>, the file system and the formatting of a
    float are collaborators outside the repository: they are fields of the record
    \<open>ext\<close> that every function using them takes.
  \<^item> numpy's \<^verbatim>\<open>percentile\<close>, \<^verbatim>\<open>histogram\<close>, \<^verbatim>\<open>mean\<close> and slicing are written out
    from numpy's documented behaviour.
\<close>

subsection \<open>Thresholds\<close>

definition GATE_A_CONTRAST_MIN :: real where "GATE_A_CONTRAST_MIN = 0.35"
definition GATE_B_TRANSITION_RATIO :: real where "GATE_B_TRANSITION_RATIO = 0.35"
definition GATE_B_TOTAL_TRANSITIONS_MIN :: int where "GATE_B_TOTAL_TRANSITIONS_MIN = 12"
definition GATE_B_ROI_TRANSITIONS_MIN :: int where "GATE_B_ROI_TRANSITIONS_MIN = 4"
definition GATE_C_STAR_LUMA_MIN :: real where "GATE_C_STAR_LUMA_MIN = 200"
definition GATE_C_STAR_DENSITY_MIN :: real where "GATE_C_STAR_DENSITY_MIN = 0.0005"
definition GATE_D_P50_MIN :: real where "GATE_D_P50_MIN = 14"
definition GATE_D_P05_MIN :: real where "GATE_D_P05_MIN = 6"
definition GATE_E_MOTION_DELTA_MIN :: real where "GATE_E_MOTION_DELTA_MIN = 2"
definition GATE_E_MOVING_RATIO_MIN :: real where "GATE_E_MOVING_RATIO_MIN = 0.002"
definition GATE_F_CORRELATION_MAX :: real where "GATE_F_CORRELATION_MAX = 0.75"

subsection \<open>Regions of interest\<close>

record Roi =
  name :: string
  x0 :: int
  x1 :: int
  y0 :: int
  y1 :: int




text \<open>Python's built-in \<^verbatim>\<open>round\<close> on a float: to the nearest integer, a tie to the even one.\<close>

definition py_round :: "real \<Rightarrow> int" where
  "py_round v =
     (let f = \<lfloor>v\<rfloor>; d = v - of_int f
      in if d < 1 / 2 then f
         else if 1 / 2 < d then f + 1
         else if even f then f else f + 1)"

definition get_rois :: "int \<Rightarrow> int \<Rightarrow> Roi \<times> Roi" where
  "get_rois w h =
     (let ya = py_round (0.25 * of_int h);
          yb = py_round (0.75 * of_int h);
          left = \<lparr>name = ''Left'', x0 = 0, x1 = py_round (0.12 * of_int w), y0 = ya, y1 = yb\<rparr>;
          right = \<lparr>name = ''Right'', x0 = py_round (0.88 * of_int w), x1 = w, y0 = ya, y1 = yb\<rparr>
      in (left, right))"

text \<open>Clamping to \<open>[0, dimension]\<close>, the operation the specification names.\<close>

definition clamp :: "int \<Rightarrow> int \<Rightarrow> int" where
  "clamp d v = max 0 (min d v)"

text \<open>The invariant of a region of interest resolved against a \<open>w\<close> by \<open>h\<close> image.\<close>

definition roi_within :: "int \<Rightarrow> int \<Rightarrow> Roi \<Rightarrow> bool" where
  "roi_within w h r \<longleftrightarrow>
     0 \<le> x0 r \<and> x0 r \<le> x1 r \<and> x1 r \<le> w \<and> 0 \<le> y0 r \<and> y0 r \<le> y1 r \<and> y1 r \<le> h"

subsection \<open>Arrays\<close>

datatype error = IndexError | ValueError string

text \<open>A Python float that is a number, or \<^verbatim>\<open>nan\<close>.\<close>

datatype pyfloat = Fin real | NaN

type_synonym field = "real list list"

type_synonym rgb = "(8 word \<times> 8 word \<times> 8 word) list list"

text \<open>
  A slice \<^verbatim>\<open>xs[i:j]\<close>: a negative bound counts from the end, and both bounds are cut
  to the length; the slice is empty when the stop is not after the start.
\<close>

definition slice_bound :: "nat \<Rightarrow> int \<Rightarrow> nat" where
  "slice_bound n i = (if i < 0 then nat (int n + i) else min n (nat i))"

definition py_slice :: "int \<Rightarrow> int \<Rightarrow> 'a list \<Rightarrow> 'a list" where
  "py_slice i j xs =
     (let s = slice_bound (length xs) i; e = slice_bound (length xs) j
      in take (e - s) (drop s xs))"

text \<open>
  The element \<^verbatim>\<open>xs[i]\<close>: outside \<open>-n \<le> i < n\<close> numpy raises an \<^verbatim>\<open>IndexError\<close>,
  and below zero the position is taken from the end.
\<close>

definition np_index :: "'a list \<Rightarrow> int \<Rightarrow> error + 'a" where
  "np_index xs i =
     (if i < - int (length xs) \<or> int (length xs) \<le> i then Inl IndexError
      else if i < 0 then Inr (xs ! nat (int (length xs) + i))
      else Inr (xs ! nat i))"

definition np_index2 :: "'a list list \<Rightarrow> int \<Rightarrow> int \<Rightarrow> error + 'a" where
  "np_index2 arr y x = (case np_index arr y of Inl e \<Rightarrow> Inl e | Inr row \<Rightarrow> np_index row x)"

text \<open>\<^verbatim>\<open>arr.size\<close>, the number of elements.\<close>

definition np_size :: "'a list list \<Rightarrow> nat" where
  "np_size arr = length (concat arr)"

text \<open>
  \<^verbatim>\<open>np.percentile(arr, q)\<close> with numpy's default linear method, on an array that is not
  empty: the flattened values are sorted, and the value at the fractional position
  \<open>q / 100 * (n - 1)\<close> is interpolated between its two neighbours.
\<close>

definition np_percentile :: "field \<Rightarrow> real \<Rightarrow> real" where
  "np_percentile arr q =
     (let s = sort (concat arr);
          n = length s;
          pos = q / 100 * real (n - 1);
          lo = nat \<lfloor>pos\<rfloor>;
          hi = min (lo + 1) (n - 1)
      in s ! lo + (s ! hi - s ! lo) * (pos - real lo))"

text \<open>\<^verbatim>\<open>np.mean(arr)\<close>: numpy warns and returns \<^verbatim>\<open>nan\<close> on an empty array.\<close>

definition np_mean :: "field \<Rightarrow> pyfloat" where
  "np_mean arr =
     (if np_size arr = 0 then NaN else Fin (sum_list (concat arr) / real (np_size arr)))"

text \<open>\<^verbatim>\<open>np.sum(arr >= t)\<close>, the number of elements that reach the threshold.\<close>

definition count_ge :: "field \<Rightarrow> real \<Rightarrow> nat" where
  "count_ge arr t = length (filter (\<lambda>v. t \<le> v) (concat arr))"

definition roi_slice :: "'a list list \<Rightarrow> Roi \<Rightarrow> 'a list list" where
  "roi_slice arr roi = map (py_slice (x0 roi) (x1 roi)) (py_slice (y0 roi) (y1 roi) arr)"

subsection \<open>Luminance\<close>

definition calculate_luminance :: "rgb \<Rightarrow> field" where
  "calculate_luminance arr =
     map (map (\<lambda>(r, g, b).
       real (unat r) * 0.2126 + real (unat g) * 0.7152 + real (unat b) * 0.0722)) arr"

subsection \<open>Gates A, C and D\<close>

definition gate_a_cloud_visibility :: "field \<Rightarrow> Roi \<Rightarrow> real \<times> real \<times> real \<times> real \<times> bool" where
  "gate_a_cloud_visibility blurred_luma roi =
     (let region = roi_slice blurred_luma roi
      in if np_size region = 0 then (0, 0, 0, 0, False)
         else let p05 = np_percentile region 5;
                  p50 = np_percentile region 50;
                  p95 = np_percentile region 95;
                  contrast = (p95 - p05) / max p50 1
              in (p05, p50, p95, contrast, GATE_A_CONTRAST_MIN \<le> contrast))"

definition gate_c_star_density :: "field \<Rightarrow> Roi \<Rightarrow> real \<times> bool" where
  "gate_c_star_density luma roi =
     (let region = roi_slice luma roi
      in if np_size region = 0 then (0, False)
         else let star_count = int (count_ge region GATE_C_STAR_LUMA_MIN);
                  density = of_int star_count / real (np_size region)
              in (density, GATE_C_STAR_DENSITY_MIN \<le> density))"

definition gate_d_non_black :: "field \<Rightarrow> Roi \<Rightarrow> real \<times> real \<times> bool" where
  "gate_d_non_black luma roi =
     (let region = roi_slice luma roi
      in if np_size region = 0 then (0, 0, False)
         else let p50 = np_percentile region 50;
                  p05 = np_percentile region 5
              in (p50, p05, GATE_D_P50_MIN \<le> p50 \<and> GATE_D_P05_MIN \<le> p05))"

subsection \<open>Gate B\<close>

definition average_window :: "field \<Rightarrow> Roi \<Rightarrow> int \<Rightarrow> int \<Rightarrow> int \<Rightarrow> error + pyfloat" where
  "average_window luma roi x y window =
     (let half = window div 2;
          wx0 = max (x0 roi) (x - half);
          wx1 = min (x1 roi - 1) (x + half);
          wy0 = max (y0 roi) (y - half);
          wy1 = min (y1 roi - 1) (y + half)
      in if wx1 < wx0 \<or> wy1 < wy0
         then (case np_index2 luma y x of Inl e \<Rightarrow> Inl e | Inr v \<Rightarrow> Inr (Fin v))
         else Inr (np_mean (map (py_slice wx0 (wx1 + 1)) (py_slice wy0 (wy1 + 1) luma))))"

text \<open>
  The test \<^verbatim>\<open>abs(curr - prev) / max(prev, 1.0) >= GATE_B_TRANSITION_RATIO\<close>. With a
  \<^verbatim>\<open>nan\<close> on either side the quotient is \<^verbatim>\<open>nan\<close> (Python's \<^verbatim>\<open>max(nan, 1.0)\<close> is
  \<^verbatim>\<open>nan\<close>) and the comparison is false; the divisor is never zero.
\<close>

fun is_transition :: "pyfloat \<Rightarrow> pyfloat \<Rightarrow> bool" where
  "is_transition (Fin prev) (Fin cur) = (GATE_B_TRANSITION_RATIO \<le> \<bar>cur - prev\<bar> / max prev 1)"
| "is_transition _ _ = False"

text \<open>The four loops that build \<^verbatim>\<open>path\<close>.\<close>

definition gate_b_path :: "int \<Rightarrow> int \<Rightarrow> int \<Rightarrow> int \<Rightarrow> (int \<times> int) list" where
  "gate_b_path left right top' bottom =
     map (\<lambda>x. (x, top')) [left..right]
     @ map (\<lambda>y. (right, y)) [top' + 1..bottom]
     @ map (\<lambda>x. (x, bottom)) (rev [left..right - 1])
     @ map (\<lambda>y. (left, y)) (rev [top' + 1..bottom - 1])"

text \<open>The loop that fills \<^verbatim>\<open>values\<close>; an exception of \<open>average_window\<close> ends it.\<close>

fun sample_path :: "field \<Rightarrow> Roi \<Rightarrow> (int \<times> int) list \<Rightarrow> error + pyfloat list" where
  "sample_path luma roi [] = Inr []"
| "sample_path luma roi ((x, y) # rest) =
     (case average_window luma roi x y 5 of
        Inl e \<Rightarrow> Inl e
      | Inr v \<Rightarrow> (case sample_path luma roi rest of
                   Inl e \<Rightarrow> Inl e
                 | Inr vs \<Rightarrow> Inr (v # vs)))"

definition count_transitions :: "pyfloat list \<Rightarrow> int" where
  "count_transitions vs =
     (let transitions =
            int (length (filter (\<lambda>(prev, cur). is_transition prev cur) (zip vs (drop 1 vs))))
      in if is_transition (last vs) (hd vs) then transitions + 1 else transitions)"

definition gate_b_transition_count :: "field \<Rightarrow> Roi \<Rightarrow> error + (int \<times> bool \<times> pyfloat list)" where
  "gate_b_transition_count blurred_luma roi =
     (let inset = 3;
          left = x0 roi + inset;
          right = x1 roi - 1 - inset;
          top' = y0 roi + inset;
          bottom = y1 roi - 1 - inset
      in if right \<le> left \<or> bottom \<le> top' then Inr (0, False, [])
         else let path = gate_b_path left right top' bottom
              in if length path < 2 then Inr (0, False, [])
                 else (case sample_path blurred_luma roi path of
                         Inl e \<Rightarrow> Inl e
                       | Inr vs \<Rightarrow>
                           let transitions = count_transitions vs
                           in Inr (transitions, GATE_B_ROI_TRANSITIONS_MIN \<le> transitions, vs)))"

subsection \<open>Gate E\<close>

record MotionMetrics =
  per_pair_left :: "real list"
  per_pair_right :: "real list"
  avg_left :: real
  avg_right :: real
  passed_left :: bool
  passed_right :: bool

text \<open>
  \<^verbatim>\<open>np.abs(luma_b - luma_a)\<close> on two fields of one shape. On two shapes that differ numpy
  raises a \<^verbatim>\<open>ValueError\<close>, unless one axis has length one and is broadcast, which
  is not modelled.
\<close>

definition np_abs_diff :: "field \<Rightarrow> field \<Rightarrow> error + field" where
  "np_abs_diff luma_b luma_a =
     (if map length luma_b = map length luma_a
      then Inr (map2 (map2 (\<lambda>b a. \<bar>b - a\<bar>)) luma_b luma_a)
      else Inl (ValueError ''operands could not be broadcast together''))"

text \<open>The body of the loop over the two regions: the ratio appended for one pair of frames.\<close>

definition moving_ratio :: "field \<Rightarrow> Roi \<Rightarrow> real" where
  "moving_ratio diff roi =
     (let region = roi_slice diff roi
      in if np_size region = 0 then 0
         else real (count_ge region GATE_E_MOTION_DELTA_MIN) / real (np_size region))"

text \<open>The loop over \<^verbatim>\<open>range(len(frames) - 1)\<close>.\<close>

fun pair_ratios :: "rgb list \<Rightarrow> Roi \<Rightarrow> Roi \<Rightarrow> error + (real list \<times> real list)" where
  "pair_ratios (frame_a # frame_b # rest) left right =
     (case np_abs_diff (calculate_luminance frame_b) (calculate_luminance frame_a) of
        Inl e \<Rightarrow> Inl e
      | Inr diff \<Rightarrow>
          (case pair_ratios (frame_b # rest) left right of
             Inl e \<Rightarrow> Inl e
           | Inr (ls, rs) \<Rightarrow> Inr (moving_ratio diff left # ls, moving_ratio diff right # rs)))"
| "pair_ratios frames left right = Inr ([], [])"

text \<open>\<^verbatim>\<open>np.mean\<close> of a list of numbers that is not empty.\<close>

definition list_mean :: "real list \<Rightarrow> real" where
  "list_mean xs = sum_list xs / real (length xs)"

definition compute_motion_metrics :: "rgb list \<Rightarrow> Roi \<Rightarrow> Roi \<Rightarrow> error + MotionMetrics" where
  "compute_motion_metrics frames left right =
     (case pair_ratios frames left right of
        Inl e \<Rightarrow> Inl e
      | Inr (ls, rs) \<Rightarrow>
          let al = (if ls \<noteq> [] then list_mean ls else 0);
              ar = (if rs \<noteq> [] then list_mean rs else 0)
          in Inr \<lparr>per_pair_left = ls, per_pair_right = rs, avg_left = al, avg_right = ar,
                  passed_left = (GATE_E_MOVING_RATIO_MIN \<le> al),
                  passed_right = (GATE_E_MOVING_RATIO_MIN \<le> ar)\<rparr>)"

subsection \<open>Collaborators outside the repository\<close>

record ext =
  image_open :: "string \<Rightarrow> rgb"
  GaussianBlur :: "field \<Rightarrow> int \<Rightarrow> field"
  fmt :: "nat \<Rightarrow> real \<Rightarrow> string"
  path_exists :: "string \<Rightarrow> bool"
  path_isdir :: "string \<Rightarrow> bool"
  path_join :: "string \<Rightarrow> string \<Rightarrow> string"
  path_dirname :: "string \<Rightarrow> string"
  path_basename :: "string \<Rightarrow> string"
  sorted_glob :: "string \<Rightarrow> string list"

text \<open>
  \<open>image_open e path\<close> is \<^verbatim>\<open>np.array(Image.open(path).convert("RGB"))\<close>, taken to succeed;
  \<open>GaussianBlur e luma sigma\<close> is \<^verbatim>\<open>cv2.GaussianBlur(luma, (0, 0), sigma, sigma)\<close>;
  \<open>fmt e n v\<close> is the text of \<^verbatim>\<open>f"{v:.nf}"\<close>; \<open>sorted_glob e p\<close> is
  \<^verbatim>\<open>sorted(glob.glob(p))\<close>; the others are the functions of \<^verbatim>\<open>os.path\<close>.
\<close>

text \<open>\<^verbatim>\<open>arr.shape[:2]\<close> of an image held as the list of its rows.\<close>

definition np_height :: "'a list list \<Rightarrow> int" where
  "np_height arr = int (length arr)"

definition np_width :: "'a list list \<Rightarrow> int" where
  "np_width arr = (case arr of [] \<Rightarrow> 0 | row # _ \<Rightarrow> int (length row))"

text \<open>\<^verbatim>\<open>str\<close> of an integer and of a list of integers.\<close>

fun digits_of :: "nat \<Rightarrow> string" where
  "digits_of n =
     (if n < 10 then [char_of (48 + n)] else digits_of (n div 10) @ [char_of (48 + n mod 10)])"

declare digits_of.simps [simp del]

definition py_str_int :: "int \<Rightarrow> string" where
  "py_str_int i = (if i < 0 then ''-'' @ digits_of (nat (- i)) else digits_of (nat i))"

fun comma_join :: "string list \<Rightarrow> string" where
  "comma_join [] = []"
| "comma_join [s] = s"
| "comma_join (s # t # rest) = s @ '', '' @ comma_join (t # rest)"

definition py_str_int_list :: "int list \<Rightarrow> string" where
  "py_str_int_list xs = ''['' @ comma_join (map py_str_int xs) @ '']''"

subsection \<open>Gate F\<close>

text \<open>
  \<^verbatim>\<open>np.histogram(arr, bins, range=(lo, hi))\<close>: equal bins over \<open>[lo, hi]\<close>, each closed
  on the left and open on the right but the last, which is closed; values outside
  the range are not counted.
\<close>

definition bin_index :: "real \<Rightarrow> nat \<Rightarrow> real \<Rightarrow> real \<Rightarrow> nat" where
  "bin_index v bins lo hi =
     (if v = hi then bins - 1 else nat \<lfloor>(v - lo) * real bins / (hi - lo)\<rfloor>)"

definition np_histogram :: "field \<Rightarrow> nat \<Rightarrow> real \<Rightarrow> real \<Rightarrow> real list" where
  "np_histogram arr bins lo hi =
     map (\<lambda>i. real (length (filter (\<lambda>v. lo \<le> v \<and> v \<le> hi \<and> bin_index v bins lo hi = i)
                                (concat arr))))
       [0..<bins]"

text \<open>\<^verbatim>\<open>np.linalg.norm\<close> of a vector and \<^verbatim>\<open>np.dot\<close> of two vectors of one length.\<close>

definition np_norm :: "real list \<Rightarrow> real" where
  "np_norm xs = sqrt (sum_list (map (\<lambda>v. v * v) xs))"

definition correlation :: "real list \<Rightarrow> real list \<Rightarrow> real" where
  "correlation a b = sum_list (map2 (*) a b)"

definition blur_sigma :: "int \<Rightarrow> int" where
  "blur_sigma h = max 20 (py_round (0.01 * of_int h))"

definition blurred_hist :: "ext \<Rightarrow> string \<Rightarrow> real list" where
  "blurred_hist e path =
     (let arr = image_open e path;
          luma = calculate_luminance arr;
          sigma = blur_sigma (np_height arr);
          blurred = GaussianBlur e luma sigma;
          hist = np_histogram blurred 64 0 255;
          norm = np_norm hist
      in if norm = 0 then hist else map (\<lambda>v. v / norm) hist)"

definition required_levels :: "int list" where
  "required_levels = [1, 10, 20]"

definition gate_f_theme_separation ::
  "ext \<Rightarrow> (int \<rightharpoonup> string) \<Rightarrow> error + (real \<times> real \<times> bool \<times> bool)" where
  "gate_f_theme_separation e level_paths =
     (let missing = filter (\<lambda>lvl. level_paths lvl = None) required_levels
      in if missing \<noteq> []
         then Inl (ValueError (''Missing required level screenshots: '' @ py_str_int_list missing))
         else let hist_1 = blurred_hist e (the (level_paths 1));
                  hist_10 = blurred_hist e (the (level_paths 10));
                  hist_20 = blurred_hist e (the (level_paths 20));
                  corr_1_10 = correlation hist_1 hist_10;
                  corr_10_20 = correlation hist_10 hist_20
              in Inr (corr_1_10, corr_10_20,
                      corr_1_10 \<le> GATE_F_CORRELATION_MAX, corr_10_20 \<le> GATE_F_CORRELATION_MAX))"

subsection \<open>One image\<close>

record GateResult =
  name :: string
  passed :: bool
  details :: "string list"

text \<open>The five blocks of \<open>verify_image\<close>, one per gate.\<close>

definition gate_a_result :: "ext \<Rightarrow> field \<Rightarrow> Roi \<Rightarrow> Roi \<Rightarrow> GateResult" where
  "gate_a_result e blurred left right =
     (case (gate_a_cloud_visibility blurred left, gate_a_cloud_visibility blurred right) of
        ((l05, l50, l95, lc, lp), (r05, r50, r95, rc, rp)) \<Rightarrow>
          \<lparr>name = ''Gate A'', passed = (lp \<and> rp),
           details =
             [''Left ROI contrast='' @ fmt e 4 lc @ '' (P05='' @ fmt e 2 l05 @ '', P50=''
                @ fmt e 2 l50 @ '', P95='' @ fmt e 2 l95 @ '')'',
              ''Right ROI contrast='' @ fmt e 4 rc @ '' (P05='' @ fmt e 2 r05 @ '', P50=''
                @ fmt e 2 r50 @ '', P95='' @ fmt e 2 r95 @ '')'',
              ''Threshold contrast >= 0.35'']\<rparr>)"

definition gate_b_result :: "field \<Rightarrow> Roi \<Rightarrow> Roi \<Rightarrow> error + GateResult" where
  "gate_b_result blurred left right =
     (case gate_b_transition_count blurred left of
        Inl err \<Rightarrow> Inl err
      | Inr (b_left_transitions, b_left_pass, _) \<Rightarrow>
          (case gate_b_transition_count blurred right of
             Inl err \<Rightarrow> Inl err
           | Inr (b_right_transitions, b_right_pass, _) \<Rightarrow>
               let total_transitions = b_left_transitions + b_right_transitions
               in Inr \<lparr>name = ''Gate B'',
                       passed = (b_left_pass \<and> b_right_pass
                                 \<and> GATE_B_TOTAL_TRANSITIONS_MIN \<le> total_transitions),
                       details =
                         [''Left ROI transitions='' @ py_str_int b_left_transitions
                            @ '' (threshold >= 4)'',
                          ''Right ROI transitions='' @ py_str_int b_right_transitions
                            @ '' (threshold >= 4)'',
                          ''Total transitions='' @ py_str_int total_transitions
                            @ '' (threshold >= 12)'']\<rparr>))"

definition gate_c_result :: "ext \<Rightarrow> field \<Rightarrow> Roi \<Rightarrow> Roi \<Rightarrow> GateResult" where
  "gate_c_result e luma left right =
     (case (gate_c_star_density luma left, gate_c_star_density luma right) of
        ((c_left_density, c_left_pass), (c_right_density, c_right_pass)) \<Rightarrow>
          \<lparr>name = ''Gate C'', passed = (c_left_pass \<and> c_right_pass),
           details =
             [''Left ROI star_density='' @ fmt e 6 c_left_density @ '' (threshold >= 0.0005)'',
              ''Right ROI star_density='' @ fmt e 6 c_right_density
                @ '' (threshold >= 0.0005)'']\<rparr>)"

definition gate_d_result :: "ext \<Rightarrow> field \<Rightarrow> Roi \<Rightarrow> Roi \<Rightarrow> GateResult" where
  "gate_d_result e luma left right =
     (case (gate_d_non_black luma left, gate_d_non_black luma right) of
        ((d_left_p50, d_left_p05, d_left_pass), (d_right_p50, d_right_p05, d_right_pass)) \<Rightarrow>
          \<lparr>name = ''Gate D'', passed = (d_left_pass \<and> d_right_pass),
           details =
             [''Left ROI P50='' @ fmt e 2 d_left_p50 @ '', P05='' @ fmt e 2 d_left_p05
                @ '' (thresholds >= 14.0 / 6.0)'',
              ''Right ROI P50='' @ fmt e 2 d_right_p50 @ '', P05='' @ fmt e 2 d_right_p05
                @ '' (thresholds >= 14.0 / 6.0)'']\<rparr>)"

definition gate_e_result :: "ext \<Rightarrow> MotionMetrics option \<Rightarrow> GateResult" where
  "gate_e_result e motion_metrics =
     (case motion_metrics of
        None \<Rightarrow>
          \<lparr>name = ''Gate E'', passed = False,
           details =
             [''Motion frames missing or insufficient (need >= 3 frames).'',
              ''Generate motion frames with decantra motion capture and rerun.'']\<rparr>
      | Some m \<Rightarrow>
          \<lparr>name = ''Gate E'', passed = (passed_left m \<and> passed_right m),
           details =
             [''Left ROI moving_ratio_avg='' @ fmt e 6 (avg_left m) @ '' (threshold >= 0.002)'',
              ''Right ROI moving_ratio_avg='' @ fmt e 6 (avg_right m) @ '' (threshold >= 0.002)'',
              ''Left ROI per-pair ratios='' @ comma_join (map (fmt e 6) (per_pair_left m)),
              ''Right ROI per-pair ratios='' @ comma_join (map (fmt e 6) (per_pair_right m))]\<rparr>)"

definition verify_image ::
  "ext \<Rightarrow> string \<Rightarrow> bool \<Rightarrow> MotionMetrics option \<Rightarrow> error + GateResult list" where
  "verify_image e path req_motion motion_metrics =
     (let arr = image_open e path;
          h = np_height arr;
          w = np_width arr;
          left = fst (get_rois w h);
          right = snd (get_rois w h);
          luma = calculate_luminance arr;
          sigma = blur_sigma h;
          blurred = GaussianBlur e luma sigma
      in case gate_b_result blurred left right of
           Inl err \<Rightarrow> Inl err
         | Inr gate_b \<Rightarrow>
             Inr ([gate_a_result e blurred left right, gate_b,
                   gate_c_result e luma left right, gate_d_result e luma left right]
                  @ (if req_motion then [gate_e_result e motion_metrics] else [])))"

subsection \<open>The command line\<close>

record args =
  args_image :: "string option"
  args_dir :: "string option"
  args_motion_dir :: "string option"
  args_require_motion :: bool

text \<open>Python's truth value of an optional string: \<^verbatim>\<open>None\<close> and the empty string are false.\<close>

definition truthy :: "string option \<Rightarrow> bool" where
  "truthy s = (case s of None \<Rightarrow> False | Some t \<Rightarrow> t \<noteq> [])"

definition find_images_in_dir :: "ext \<Rightarrow> string \<Rightarrow> string list" where
  "find_images_in_dir e directory = sorted_glob e (path_join e directory ''*.png'')"

text \<open>
  \<^verbatim>\<open>LEVEL_RE.search\<close>: the leftmost place where \<^verbatim>\<open>level-\<close>, in any case, is followed by
  a decimal digit, and there the longest run of digits (ASCII only).
\<close>

definition char_lower :: "char \<Rightarrow> char" where
  "char_lower c =
     (let n = (of_char c :: nat) in if 65 \<le> n \<and> n \<le> 90 then char_of (n + 32) else c)"

definition is_digit :: "char \<Rightarrow> bool" where
  "is_digit c = (let n = (of_char c :: nat) in 48 \<le> n \<and> n \<le> 57)"

fun level_search :: "string \<Rightarrow> string option" where
  "level_search [] = None"
| "level_search (c # cs) =
     (let ds = takeWhile is_digit (drop 6 (c # cs))
      in if map char_lower (take 6 (c # cs)) = ''level-'' \<and> ds \<noteq> [] then Some ds
         else level_search cs)"

definition int_of_digits :: "string \<Rightarrow> int" where
  "int_of_digits ds = foldl (\<lambda>acc c. acc * 10 + (int (of_char c) - 48)) 0 ds"

definition parse_level_number :: "ext \<Rightarrow> string \<Rightarrow> int option" where
  "parse_level_number e path =
     (case level_search (path_basename e path) of
        None \<Rightarrow> None
      | Some ds \<Rightarrow> Some (int_of_digits ds))"

definition pick_motion_dir :: "ext \<Rightarrow> string \<Rightarrow> string option \<Rightarrow> string option" where
  "pick_motion_dir e base_dir preferred =
     (let candidates =
            (if truthy preferred then [the preferred] else [])
            @ [path_join e base_dir ''motion'',
               path_join e (path_join e base_dir ''DecantraScreenshots'') ''motion'',
               path_join e (path_dirname e base_dir) ''motion'',
               path_join e (path_join e (path_dirname e base_dir) ''DecantraScreenshots'')
                 ''motion'']
      in find (\<lambda>candidate. candidate \<noteq> [] \<and> path_isdir e candidate
                \<and> 3 \<le> length (sorted_glob e (path_join e candidate ''frame-*.png'')))
           candidates)"

definition load_motion_frames :: "ext \<Rightarrow> string \<Rightarrow> rgb list" where
  "load_motion_frames e motion_dir =
     map (image_open e) (sorted_glob e (path_join e motion_dir ''frame-*.png''))"

text \<open>
  The blocks of \<open>main\<close>. Each returns the lines it prints with its result; a line
  printed before an exception leaves \<open>main\<close> is not kept.
\<close>

definition main_inputs :: "ext \<Rightarrow> args \<Rightarrow> string + (string list \<times> string)" where
  "main_inputs e a =
     (if \<not> truthy (args_image a) \<and> \<not> truthy (args_dir a)
      then Inl ''ERROR: Provide --image or --dir''
      else if truthy (args_image a) \<and> truthy (args_dir a)
      then Inl ''ERROR: Use only one of --image or --dir''
      else if truthy (args_image a)
      then (let image = the (args_image a)
            in if \<not> path_exists e image then Inl (''ERROR: Image not found: '' @ image)
               else Inr ([image], path_dirname e image))
      else (let base_dir = the (args_dir a)
            in if base_dir = [] \<or> \<not> path_isdir e base_dir
               then Inl (''ERROR: Directory not found: '' @ base_dir)
               else let images = find_images_in_dir e base_dir
                    in if images = [] then Inl (''ERROR: No PNG images found in: '' @ base_dir)
                       else Inr (images, base_dir)))"

definition main_motion ::
  "ext \<Rightarrow> args \<Rightarrow> string \<Rightarrow> error + (string list \<times> MotionMetrics option)" where
  "main_motion e a base_dir =
     (if args_require_motion a
      then (case pick_motion_dir e base_dir (args_motion_dir a) of
              None \<Rightarrow>
                Inr ([''ERROR: Motion frames missing. Require >= 3 frames in motion directory.'',
                      ''Expected motion directory under screenshots (e.g., <dir>/motion).''],
                     None)
            | Some motion_dir \<Rightarrow>
                let frames = load_motion_frames e motion_dir
                in if length frames < 3
                   then Inr ([''ERROR: Motion frames missing. Require >= 3 frames.''], None)
                   else let rois = get_rois (np_width (frames ! 0)) (np_height (frames ! 0))
                        in (case compute_motion_metrics frames (fst rois) (snd rois) of
                              Inl err \<Rightarrow> Inl err
                            | Inr m \<Rightarrow> Inr ([], Some m)))
      else Inr ([], None))"

definition main_level_paths :: "ext \<Rightarrow> string \<Rightarrow> (int \<rightharpoonup> string)" where
  "main_level_paths e base_dir =
     foldl (\<lambda>level_paths path.
              case parse_level_number e path of
                None \<Rightarrow> level_paths
              | Some level_num \<Rightarrow> level_paths(level_num \<mapsto> path))
       Map.empty (find_images_in_dir e base_dir)"

definition main_gate_f :: "ext \<Rightarrow> (int \<rightharpoonup> string) \<Rightarrow> error + (bool \<times> string list)" where
  "main_gate_f e level_paths =
     (case gate_f_theme_separation e level_paths of
        Inr (corr_1_10, corr_10_20, pass_1_10, pass_10_20) \<Rightarrow>
          Inr (pass_1_10 \<and> pass_10_20,
               [''Level 1 vs 10 correlation='' @ fmt e 4 corr_1_10 @ '' (threshold <= 0.75)'',
                ''Level 10 vs 20 correlation='' @ fmt e 4 corr_10_20 @ '' (threshold <= 0.75)''])
      | Inl (ValueError msg) \<Rightarrow> Inr (False, [msg])
      | Inl IndexError \<Rightarrow> Inl IndexError)"

definition status_text :: "bool \<Rightarrow> string" where
  "status_text p = (if p then ''PASS'' else ''FAIL'')"

definition rule_line :: string where
  "rule_line = replicate 72 (CHR ''='')"

definition print_result :: "GateResult \<Rightarrow> string list" where
  "print_result result =
     (name result @ '': '' @ status_text (passed result))
     # map (\<lambda>detail. ''  - '' @ detail) (details result)"

text \<open>The loop over \<^verbatim>\<open>images\<close>, threading \<^verbatim>\<open>all_passed\<close>.\<close>

fun main_loop ::
  "ext \<Rightarrow> bool \<Rightarrow> MotionMetrics option \<Rightarrow> bool \<Rightarrow> string list \<Rightarrow> string list \<Rightarrow> bool
   \<Rightarrow> error + (string list \<times> bool)" where
  "main_loop e req_motion motion_metrics gate_f_passed gate_f_details [] all_passed =
     Inr ([], all_passed)"
| "main_loop e req_motion motion_metrics gate_f_passed gate_f_details (path # rest) all_passed =
     (case verify_image e path req_motion motion_metrics of
        Inl err \<Rightarrow> Inl err
      | Inr image_results \<Rightarrow>
          let out = [rule_line, ''Verifying '' @ path_basename e path, rule_line]
                    @ concat (map print_result image_results)
                    @ [''Gate F: '' @ status_text gate_f_passed]
                    @ map (\<lambda>detail. ''  - '' @ detail) gate_f_details;
              all_passed1 = foldl (\<lambda>ap result. ap \<and> passed result) all_passed image_results;
              all_passed2 = (all_passed1 \<and> gate_f_passed)
          in (case main_loop e req_motion motion_metrics gate_f_passed gate_f_details rest
                     all_passed2 of
                Inl err \<Rightarrow> Inl err
              | Inr (out_rest, all_passed3) \<Rightarrow> Inr (out @ out_rest, all_passed3)))"

text \<open>\<open>main\<close> returns the printed lines and the exit code.\<close>

definition main :: "ext \<Rightarrow> args \<Rightarrow> error + (string list \<times> int)" where
  "main e a =
     (case main_inputs e a of
        Inl msg \<Rightarrow> Inr ([msg], 1)
      | Inr (images, base_dir) \<Rightarrow>
          (case main_motion e a base_dir of
             Inl err \<Rightarrow> Inl err
           | Inr (motion_out, motion_metrics) \<Rightarrow>
               (case main_gate_f e (main_level_paths e base_dir) of
                  Inl err \<Rightarrow> Inl err
                | Inr (gate_f_passed, gate_f_details) \<Rightarrow>
                    (case main_loop e (args_require_motion a) motion_metrics gate_f_passed
                            gate_f_details images True of
                       Inl err \<Rightarrow> Inl err
                     | Inr (loop_out, all_passed0) \<Rightarrow>
                         let all_passed =
                               (if args_require_motion a \<and> motion_metrics = None then False
                                else all_passed0)
                         in Inr (motion_out @ loop_out
                                 @ [rule_line,
                                    ''BACKGROUND VISIBILITY VERIFICATION RESULT: ''
                                      @ status_text all_passed,
                                    rule_line],
                                 if all_passed then 0 else 1)))))"

text \<open>
  The exit code of the process: the value \<open>main\<close> returns, and 1 when an exception
  leaves it.
\<close>

definition exit_code :: "error + (string list \<times> int) \<Rightarrow> int" where
  "exit_code r = (case r of Inl err \<Rightarrow> 1 | Inr (out, code) \<Rightarrow> code)"

subsection \<open>Notions the statements use\<close>

text \<open>A field of \<open>h\<close> rows of \<open>w\<close> values each.\<close>

definition wf_field :: "nat \<Rightarrow> nat \<Rightarrow> 'a list list \<Rightarrow> bool" where
  "wf_field w h f \<longleftrightarrow> length f = h \<and> list_all (\<lambda>row. length row = w) f"

text \<open>
  The values of a field at the pixels \<open>(x, y)\<close> with \<open>x0 \<le> x < x1\<close> and \<open>y0 \<le> y < y1\<close>,
  row by row.
\<close>

definition roi_pixels :: "'a list list \<Rightarrow> Roi \<Rightarrow> 'a list" where
  "roi_pixels f roi =
     concat (map (\<lambda>y. map (\<lambda>x. f ! nat y ! nat x) [x0 roi..x1 roi - 1]) [y0 roi..y1 roi - 1])"


text \<open>What \<open>verify_image\<close> computes from the file before it runs the gates.\<close>

definition image_luma :: "ext \<Rightarrow> string \<Rightarrow> field" where
  "image_luma e path = calculate_luminance (image_open e path)"

definition image_blurred :: "ext \<Rightarrow> string \<Rightarrow> field" where
  "image_blurred e path =
     GaussianBlur e (image_luma e path) (blur_sigma (np_height (image_open e path)))"

definition image_rois :: "ext \<Rightarrow> string \<Rightarrow> Roi \<times> Roi" where
  "image_rois e path = get_rois (np_width (image_open e path)) (np_height (image_open e path))"



text \<open>The number of pixels of a region whose value reaches the star threshold.\<close>

definition star_count :: "field \<Rightarrow> Roi \<Rightarrow> nat" where
  "star_count luma roi = length (filter (\<lambda>v. GATE_C_STAR_LUMA_MIN \<le> v) (roi_pixels luma roi))"

text \<open>The gate results of one image, as \<open>main\<close> reads them in its loop.\<close>

definition image_results :: "ext \<Rightarrow> string \<Rightarrow> bool \<Rightarrow> MotionMetrics option \<Rightarrow> GateResult list" where
  "image_results e path req_motion motion_metrics =
     (case verify_image e path req_motion motion_metrics of Inl err \<Rightarrow> [] | Inr rs \<Rightarrow> rs)"

text \<open>
  Motion is unavailable: no candidate directory holds three frames, or the directory
  picked yields fewer than three.
\<close>

definition motion_unavailable :: "ext \<Rightarrow> args \<Rightarrow> string \<Rightarrow> bool" where
  "motion_unavailable e a base_dir =
     (case pick_motion_dir e base_dir (args_motion_dir a) of
        None \<Rightarrow> True
      | Some motion_dir \<Rightarrow> length (load_motion_frames e motion_dir) < 3)"

text \<open>The result \<open>verify_image\<close> appends for gate E when it is given no motion metrics.\<close>

definition gate_e_missing :: GateResult where
  "gate_e_missing =
     \<lparr>name = ''Gate E'', passed = False,
      details = [''Motion frames missing or insufficient (need >= 3 frames).'',
                 ''Generate motion frames with decantra motion capture and rerun.'']\<rparr>"





text \<open>
  The histogram of the blurred luminance of a level screenshot as counted, and scaled
  to unit length.
\<close>

definition level_hist :: "ext \<Rightarrow> string \<Rightarrow> real list" where
  "level_hist e path = np_histogram (image_blurred e path) 64 0 255"

definition unit_hist :: "ext \<Rightarrow> string \<Rightarrow> real list" where
  "unit_hist e path = map (\<lambda>v. v / np_norm (level_hist e path)) (level_hist e path)"








subsection \<open>Sample inputs\<close>

text \<open>
  One black pixel as every image, no directory and no file found by a pattern: the
  single image \<^verbatim>\<open>shots/level-1.png\<close> is verified with motion required.
\<close>

definition sample_ext :: ext where
  "sample_ext =
     \<lparr>image_open = (\<lambda>path. [[(0, 0, 0)]]),
      GaussianBlur = (\<lambda>luma sigma. luma),
      fmt = (\<lambda>n v. ''?''),
      path_exists = (\<lambda>path. True),
      path_isdir = (\<lambda>path. False),
      path_join = (\<lambda>d f. d @ ''/'' @ f),
      path_dirname = (\<lambda>path. ''shots''),
      path_basename = (\<lambda>path. ''level-1.png''),
      sorted_glob = (\<lambda>pattern. [])\<rparr>"

definition sample_args :: args where
  "sample_args =
     \<lparr>args_image = Some ''shots/level-1.png'', args_dir = None, args_motion_dir = None,
      args_require_motion = True\<rparr>"

text \<open>
  The sample environment with a blur that moves every value out of the range of the
  histogram, and three level screenshots.
\<close>

definition out_of_range_ext :: ext where
  "out_of_range_ext = sample_ext\<lparr>GaussianBlur := (\<lambda>luma sigma. map (map (\<lambda>v. v + 256)) luma)\<rparr>"

definition sample_levels_map :: "int \<rightharpoonup> string" where
  "sample_levels_map = [1 \<mapsto> ''level-1.png'', 10 \<mapsto> ''level-10.png'', 20 \<mapsto> ''level-20.png'']"



section \<open>Facts\<close>

subsection \<open>Rounding\<close>

lemma py_round_nearest: "\<bar>of_int (py_round v) - v\<bar> \<le> 1 / 2"
  unfolding py_round_def Let_def by (auto simp: abs_le_iff)

lemma py_round_mono: "u \<le> v \<Longrightarrow> py_round u \<le> py_round v"
proof -
  assume uv: "u \<le> v"
  have fl: "\<lfloor>u\<rfloor> \<le> \<lfloor>v\<rfloor>" using uv by (rule floor_mono)
  show ?thesis
  proof (cases "\<lfloor>u\<rfloor> = \<lfloor>v\<rfloor>")
    case True
    with uv show ?thesis unfolding py_round_def Let_def by auto
  next
    case False
    with fl have "\<lfloor>u\<rfloor> + 1 \<le> \<lfloor>v\<rfloor>" by simp
    moreover have "py_round u \<le> \<lfloor>u\<rfloor> + 1" unfolding py_round_def Let_def by auto
    moreover have "\<lfloor>v\<rfloor> \<le> py_round v" unfolding py_round_def Let_def by auto
    ultimately show ?thesis by linarith
  qed
qed

lemma py_round_of_int: "py_round (of_int k) = k"
  unfolding py_round_def Let_def by simp

lemma py_round_nonneg: "0 \<le> v \<Longrightarrow> 0 \<le> py_round v"
  using py_round_mono [of 0 v] py_round_of_int [of 0] by simp

lemma py_round_le_int: "v \<le> of_int k \<Longrightarrow> py_round v \<le> k"
  using py_round_mono [of v "of_int k"] py_round_of_int [of k] by simp

subsection \<open>C9: resolved regions lie inside the image\<close>

text \<open>
  C9. For every image width and height that is not negative, each bound of the two
  regions returned by \<open>get_rois\<close> is the fractional bound rounded to a nearest integer
  (at most one half away from it), clamping that integer to \<open>[0, dimension]\<close> leaves
  it unchanged, and both regions satisfy \<open>0 \<le> x0 \<le> x1 \<le> width\<close> and
  \<open>0 \<le> y0 \<le> y1 \<le> height\<close>.
\<close>

theorem get_rois_within:
  assumes "0 \<le> w" and "0 \<le> h"
  shows "roi_within w h (fst (get_rois w h)) \<and> roi_within w h (snd (get_rois w h))
    \<and> x0 (fst (get_rois w h)) = 0
    \<and> x1 (fst (get_rois w h)) = clamp w (py_round (0.12 * of_int w))
    \<and> x0 (snd (get_rois w h)) = clamp w (py_round (0.88 * of_int w))
    \<and> x1 (snd (get_rois w h)) = w
    \<and> y0 (fst (get_rois w h)) = clamp h (py_round (0.25 * of_int h))
    \<and> y1 (fst (get_rois w h)) = clamp h (py_round (0.75 * of_int h))
    \<and> y0 (snd (get_rois w h)) = y0 (fst (get_rois w h))
    \<and> y1 (snd (get_rois w h)) = y1 (fst (get_rois w h))
    \<and> \<bar>of_int (x1 (fst (get_rois w h))) - 0.12 * of_int w\<bar> \<le> (1 / 2 :: real)
    \<and> \<bar>of_int (x0 (snd (get_rois w h))) - 0.88 * of_int w\<bar> \<le> (1 / 2 :: real)
    \<and> \<bar>of_int (y0 (fst (get_rois w h))) - 0.25 * of_int h\<bar> \<le> (1 / 2 :: real)
    \<and> \<bar>of_int (y1 (fst (get_rois w h))) - 0.75 * of_int h\<bar> \<le> (1 / 2 :: real)"
proof -
  have rw: "0 \<le> (of_int w :: real)" and rh: "0 \<le> (of_int h :: real)"
    using assms by simp_all
  have a1: "0 \<le> py_round (0.12 * of_int w)" using rw by (intro py_round_nonneg) simp
  have a2: "py_round (0.12 * of_int w) \<le> w" using rw by (intro py_round_le_int) simp
  have b1: "0 \<le> py_round (0.88 * of_int w)" using rw by (intro py_round_nonneg) simp
  have b2: "py_round (0.88 * of_int w) \<le> w" using rw by (intro py_round_le_int) simp
  have c1: "0 \<le> py_round (0.25 * of_int h)" using rh by (intro py_round_nonneg) simp
  have c2: "py_round (0.25 * of_int h) \<le> py_round (0.75 * of_int h)"
    using rh by (intro py_round_mono) simp
  have c3: "py_round (0.75 * of_int h) \<le> h" using rh by (intro py_round_le_int) simp
  note n = py_round_nearest [of "0.12 * of_int w"] py_round_nearest [of "0.88 * of_int w"]
    py_round_nearest [of "0.25 * of_int h"] py_round_nearest [of "0.75 * of_int h"]
  show ?thesis
    using a1 a2 b1 b2 c1 c2 c3 n assms
    by (simp add: get_rois_def Let_def roi_within_def clamp_def)
qed

theorem get_rois_within_witness:
  "roi_within 1080 1920 (fst (get_rois 1080 1920))
   \<and> roi_within 1080 1920 (snd (get_rois 1080 1920))
   \<and> x1 (fst (get_rois 1080 1920)) = 130 \<and> x0 (snd (get_rois 1080 1920)) = 950
   \<and> y0 (fst (get_rois 1080 1920)) = 480 \<and> y1 (fst (get_rois 1080 1920)) = 1440"
proof -
  have r: "get_rois 1080 1920 =
      (\<lparr>Roi.name = ''Left'', x0 = 0, x1 = 130, y0 = 480, y1 = 1440\<rparr>,
       \<lparr>Roi.name = ''Right'', x0 = 950, x1 = 1080, y0 = 480, y1 = 1440\<rparr>)"
    by (simp add: get_rois_def py_round_def Let_def)
  from get_rois_within [of 1080 1920] show ?thesis by (simp add: r)
qed

subsection \<open>The range of the luminance\<close>

text \<open>
  The luminance of an 8-bit image lies in \<open>[0, 255]\<close>: a black image has luminance 0
  everywhere, a white one 255.
\<close>

lemma channel_range: "real (unat (c :: 8 word)) \<le> 255"
proof -
  have "unat c < 2 ^ 8" using unsigned_less [of c] by simp
  then have "unat c \<le> 255" by simp
  from of_nat_mono [OF this, where 'a = real] show ?thesis by simp
qed

lemma weighted_range:
  fixes r g b :: real
  assumes "0 \<le> r" "r \<le> 255" "0 \<le> g" "g \<le> 255" "0 \<le> b" "b \<le> 255"
  shows "0 \<le> r * 0.2126 + g * 0.7152 + b * 0.0722"
    and "r * 0.2126 + g * 0.7152 + b * 0.0722 \<le> 255"
  using assms by simp_all

lemma luminance_range:
  assumes "v \<in> set (concat (calculate_luminance arr))"
  shows "0 \<le> v \<and> v \<le> 255"
proof -
  from assms obtain r g b :: "8 word" where
    v: "v = real (unat r) * 0.2126 + real (unat g) * 0.7152 + real (unat b) * 0.0722"
    by (auto simp: calculate_luminance_def)
  have z: "0 \<le> real (unat c)" for c :: "8 word" by (rule of_nat_0_le_iff)
  note lo = weighted_range(1) [OF z channel_range z channel_range z channel_range, of r g b]
  note hi = weighted_range(2) [OF z channel_range z channel_range z channel_range, of r g b]
  show ?thesis unfolding v using lo hi by (rule conjI)
qed

lemma luminance_black_white:
  "calculate_luminance (replicate h (replicate w (0, 0, 0))) = replicate h (replicate w 0)"
  "calculate_luminance (replicate h (replicate w (255, 255, 255))) = replicate h (replicate w 255)"
  by (simp_all add: calculate_luminance_def)

subsection \<open>Slices and regions\<close>

lemma slice_bound_nonneg: "0 \<le> i \<Longrightarrow> slice_bound n i = min n (nat i)"
  by (simp add: slice_bound_def)










subsection \<open>A region without area is empty\<close>


subsection \<open>Gate B reads inside the region and never raises\<close>

lemma gate_b_path_points:
  assumes "(x, y) \<in> set (gate_b_path l r t b)" "l < r" "t < b"
  shows "l \<le> x \<and> x \<le> r \<and> t \<le> y \<and> y \<le> b \<and> (x = l \<or> x = r \<or> y = t \<or> y = b)"
  using assms by (auto simp: gate_b_path_def)

lemma average_window_inside:
  assumes "x0 roi \<le> x - 2" "x + 2 \<le> x1 roi - 1" "y0 roi \<le> y - 2" "y + 2 \<le> y1 roi - 1"
  shows "average_window f roi x y 5 =
     Inr (np_mean (map (py_slice (x - 2) (x + 3)) (py_slice (y - 2) (y + 3) f)))"
proof -
  have "max (x0 roi) (x - 2) = x - 2" "min (x1 roi - 1) (x + 2) = x + 2"
    "max (y0 roi) (y - 2) = y - 2" "min (y1 roi - 1) (y + 2) = y + 2"
    using assms by auto
  then show ?thesis by (simp add: average_window_def Let_def add.commute)
qed

lemma sample_path_inside:
  assumes "\<And>x y. (x, y) \<in> set path \<Longrightarrow>
     x0 roi \<le> x - 2 \<and> x + 2 \<le> x1 roi - 1 \<and> y0 roi \<le> y - 2 \<and> y + 2 \<le> y1 roi - 1"
  shows "sample_path f roi path =
     Inr (map (\<lambda>(x, y). np_mean (map (py_slice (x - 2) (x + 3)) (py_slice (y - 2) (y + 3) f))) path)"
  using assms
proof (induction path)
  case Nil
  then show ?case by simp
next
  case (Cons p path)
  obtain x y where p: "p = (x, y)" by (cases p)
  have "average_window f roi x y 5 =
     Inr (np_mean (map (py_slice (x - 2) (x + 3)) (py_slice (y - 2) (y + 3) f)))"
    using Cons.prems [of x y] by (intro average_window_inside) (auto simp: p)
  moreover have "sample_path f roi path =
     Inr (map (\<lambda>(x, y). np_mean (map (py_slice (x - 2) (x + 3)) (py_slice (y - 2) (y + 3) f))) path)"
    using Cons.prems by (intro Cons.IH) auto
  ultimately show ?case by (simp add: p)
qed

lemma sample_gate_b_path:
  assumes "x0 roi + 3 < x1 roi - 1 - 3" "y0 roi + 3 < y1 roi - 1 - 3"
  shows "sample_path f roi (gate_b_path (x0 roi + 3) (x1 roi - 1 - 3) (y0 roi + 3) (y1 roi - 1 - 3)) =
     Inr (map (\<lambda>(x, y). np_mean (map (py_slice (x - 2) (x + 3)) (py_slice (y - 2) (y + 3) f)))
       (gate_b_path (x0 roi + 3) (x1 roi - 1 - 3) (y0 roi + 3) (y1 roi - 1 - 3)))"
proof (rule sample_path_inside)
  fix x y
  assume "(x, y) \<in> set (gate_b_path (x0 roi + 3) (x1 roi - 1 - 3) (y0 roi + 3) (y1 roi - 1 - 3))"
  from gate_b_path_points [OF this assms]
  show "x0 roi \<le> x - 2 \<and> x + 2 \<le> x1 roi - 1 \<and> y0 roi \<le> y - 2 \<and> y + 2 \<le> y1 roi - 1"
    by auto
qed

lemma gate_b_total: "\<exists>r. gate_b_transition_count f roi = Inr r"
proof (cases "x1 roi - 1 - 3 \<le> x0 roi + 3 \<or> y1 roi - 1 - 3 \<le> y0 roi + 3")
  case True
  then show ?thesis by (auto simp: gate_b_transition_count_def Let_def)
next
  case False
  then have "x0 roi + 3 < x1 roi - 1 - 3" "y0 roi + 3 < y1 roi - 1 - 3" by auto
  from sample_gate_b_path [OF this, of f] show ?thesis
    by (auto simp: gate_b_transition_count_def Let_def)
qed

subsection \<open>C8: a region without area fails gates A to D\<close>




lemma gate_b_result_total: "\<exists>gb. gate_b_result f l r = Inr gb"
proof -
  obtain tl pl vl where l: "gate_b_transition_count f l = Inr (tl, pl, vl)"
    using gate_b_total [of f l] by (metis prod_cases3)
  obtain tr pr vr where r: "gate_b_transition_count f r = Inr (tr, pr, vr)"
    using gate_b_total [of f r] by (metis prod_cases3)
  show ?thesis by (simp add: gate_b_result_def l r Let_def)
qed





subsection \<open>The results of one image\<close>

lemma verify_image_eq:
  "verify_image e path rm mm =
     (case gate_b_result (image_blurred e path) (fst (image_rois e path)) (snd (image_rois e path)) of
        Inl err \<Rightarrow> Inl err
      | Inr gb \<Rightarrow>
          Inr ([gate_a_result e (image_blurred e path) (fst (image_rois e path)) (snd (image_rois e path)),
                gb,
                gate_c_result e (image_luma e path) (fst (image_rois e path)) (snd (image_rois e path)),
                gate_d_result e (image_luma e path) (fst (image_rois e path)) (snd (image_rois e path))]
               @ (if rm then [gate_e_result e mm] else [])))"
  unfolding verify_image_def Let_def image_blurred_def image_rois_def image_luma_def
  by (rule refl)

lemma verify_image_results:
  "\<exists>gb. gate_b_result (image_blurred e path) (fst (image_rois e path)) (snd (image_rois e path)) = Inr gb
     \<and> verify_image e path rm mm =
       Inr ([gate_a_result e (image_blurred e path) (fst (image_rois e path)) (snd (image_rois e path)),
             gb,
             gate_c_result e (image_luma e path) (fst (image_rois e path)) (snd (image_rois e path)),
             gate_d_result e (image_luma e path) (fst (image_rois e path)) (snd (image_rois e path))]
            @ (if rm then [gate_e_result e mm] else []))"
proof -
  obtain gb where
    "gate_b_result (image_blurred e path) (fst (image_rois e path)) (snd (image_rois e path)) = Inr gb"
    using gate_b_result_total by blast
  then show ?thesis by (simp add: verify_image_eq)
qed


subsection \<open>C2: gate A\<close>



subsection \<open>C6: gate C\<close>




subsection \<open>The loop of \<open>main\<close>\<close>

lemma image_results_eq:
  "verify_image e path rm mm = Inr (image_results e path rm mm)"
  using verify_image_results [of e path rm mm] by (auto simp: image_results_def)

lemma image_results_names:
  "map name (image_results e path rm mm) =
     [''Gate A'', ''Gate B'', ''Gate C'', ''Gate D''] @ (if rm then [''Gate E''] else [])"
proof -
  obtain gb where gb: "gate_b_result (image_blurred e path) (fst (image_rois e path))
      (snd (image_rois e path)) = Inr gb"
    and v: "verify_image e path rm mm =
       Inr ([gate_a_result e (image_blurred e path) (fst (image_rois e path)) (snd (image_rois e path)),
             gb,
             gate_c_result e (image_luma e path) (fst (image_rois e path)) (snd (image_rois e path)),
             gate_d_result e (image_luma e path) (fst (image_rois e path)) (snd (image_rois e path))]
            @ (if rm then [gate_e_result e mm] else []))"
    using verify_image_results [of e path rm mm] by blast
  have "name gb = ''Gate B''"
    using gb by (auto simp: gate_b_result_def Let_def split: sum.splits prod.splits)
  then show ?thesis
    by (simp add: image_results_def v gate_a_result_def gate_c_result_def gate_d_result_def
        gate_e_result_def split: prod.splits option.splits)
qed

lemma image_results_gate_e:
  "image_results e path True mm ! 4 = gate_e_result e mm"
  using verify_image_results [of e path True mm] by (auto simp: image_results_def)

lemma gate_e_in_results: "gate_e_result e mm \<in> set (image_results e path True mm)"
  using verify_image_results [of e path True mm] by (auto simp: image_results_def)

lemma foldl_passed:
  "foldl (\<lambda>ap result. ap \<and> passed result) a rs = (a \<and> (\<forall>r\<in>set rs. passed r))"
  by (induction rs arbitrary: a) auto

lemma main_loop_result:
  "\<exists>out. main_loop e rm mm gf gfd images ap =
     Inr (out, ap \<and> (\<forall>path\<in>set images. (\<forall>r\<in>set (image_results e path rm mm). passed r) \<and> gf))"
proof (induction images arbitrary: ap)
  case Nil
  then show ?case by simp
next
  case (Cons path rest)
  let ?ap2 = "(ap \<and> (\<forall>r\<in>set (image_results e path rm mm). passed r)) \<and> gf"
  from Cons.IH [of ?ap2] obtain out where
    "main_loop e rm mm gf gfd rest ?ap2 =
       Inr (out, ?ap2 \<and> (\<forall>p\<in>set rest. (\<forall>r\<in>set (image_results e p rm mm). passed r) \<and> gf))"
    by blast
  then show ?case
    by (auto simp: image_results_eq Let_def foldl_passed)
qed

lemma gate_f_error:
  "gate_f_theme_separation e lp = Inl err \<Longrightarrow>
     err = ValueError (''Missing required level screenshots: ''
             @ py_str_int_list (filter (\<lambda>lvl. lp lvl = None) required_levels))"
  by (auto simp: gate_f_theme_separation_def Let_def split: if_splits)

lemma main_gate_f_total: "\<exists>gf gfd. main_gate_f e lp = Inr (gf, gfd)"
proof (cases "gate_f_theme_separation e lp")
  case (Inl err)
  from gate_f_error [OF this] Inl obtain msg where
    "gate_f_theme_separation e lp = Inl (ValueError msg)" by blast
  then show ?thesis by (auto simp: main_gate_f_def)
next
  case (Inr r)
  then show ?thesis by (cases r) (simp add: main_gate_f_def)
qed

lemma main_inputs_nonempty: "main_inputs e a = Inr (images, base_dir) \<Longrightarrow> images \<noteq> []"
  by (auto simp: main_inputs_def Let_def split: if_splits)

subsection \<open>The sample run\<close>

lemma sample_inputs:
  "main_inputs sample_ext sample_args = Inr ([''shots/level-1.png''], ''shots'')"
  by (simp add: main_inputs_def sample_ext_def sample_args_def truthy_def)

lemma sample_pick: "pick_motion_dir sample_ext ''shots'' (args_motion_dir sample_args) = None"
  by (simp add: pick_motion_dir_def sample_ext_def sample_args_def truthy_def)

lemma sample_motion:
  "main_motion sample_ext sample_args ''shots'' =
     Inr ([''ERROR: Motion frames missing. Require >= 3 frames in motion directory.'',
           ''Expected motion directory under screenshots (e.g., <dir>/motion).''], None)"
  by (simp add: main_motion_def sample_pick) (simp add: sample_args_def)

lemma sample_levels: "main_level_paths sample_ext ''shots'' = Map.empty"
  by (simp add: main_level_paths_def find_images_in_dir_def sample_ext_def)

lemma str_1_10_20: "py_str_int_list [1, 10, 20] = ''[1, 10, 20]''"
  by code_simp

lemma sample_gate_f:
  "main_gate_f sample_ext Map.empty =
     Inr (False, [''Missing required level screenshots: [1, 10, 20]''])"
  by (simp add: main_gate_f_def gate_f_theme_separation_def required_levels_def str_1_10_20)

lemma sample_rois:
  "image_rois sample_ext p =
    (\<lparr>Roi.name = ''Left'', x0 = 0, x1 = 0, y0 = 0, y1 = 1\<rparr>,
     \<lparr>Roi.name = ''Right'', x0 = 1, x1 = 1, y0 = 0, y1 = 1\<rparr>)"
  by (simp add: image_rois_def sample_ext_def np_width_def np_height_def get_rois_def
      py_round_def Let_def)

subsection \<open>C1: the overall verdict\<close>

lemma main_result:
  assumes inputs: "main_inputs e a = Inr (images, base_dir)"
    and motion: "main_motion e a base_dir = Inr (motion_out, mm)"
    and gate_f: "main_gate_f e (main_level_paths e base_dir) = Inr (gf, gfd)"
  shows "\<exists>loop_out. main e a =
     Inr (motion_out @ loop_out
          @ [rule_line,
             ''BACKGROUND VISIBILITY VERIFICATION RESULT: ''
               @ status_text ((\<forall>path\<in>set images.
                    \<forall>r\<in>set (image_results e path (args_require_motion a) mm). passed r) \<and> gf),
             rule_line],
          if (\<forall>path\<in>set images.
                \<forall>r\<in>set (image_results e path (args_require_motion a) mm). passed r) \<and> gf
          then 0 else 1)"
proof -
  let ?all = "(\<forall>path\<in>set images.
      \<forall>r\<in>set (image_results e path (args_require_motion a) mm). passed r) \<and> gf"
  obtain loop_out where loop:
    "main_loop e (args_require_motion a) mm gf gfd images True =
       Inr (loop_out, True \<and> (\<forall>path\<in>set images.
          (\<forall>r\<in>set (image_results e path (args_require_motion a) mm). passed r) \<and> gf))"
    using main_loop_result by blast
  obtain path where path: "path \<in> set images"
    using main_inputs_nonempty [OF inputs] by (cases images) auto
  have loop_all: "(True \<and> (\<forall>path\<in>set images.
          (\<forall>r\<in>set (image_results e path (args_require_motion a) mm). passed r) \<and> gf)) = ?all"
    using path by auto
  have forced: "(if args_require_motion a \<and> mm = None then False else ?all) = ?all"
  proof (cases "args_require_motion a \<and> mm = None")
    case True
    then have "gate_e_result e mm \<in> set (image_results e path (args_require_motion a) mm)"
      using gate_e_in_results [of e mm path] by simp
    moreover have "\<not> passed (gate_e_result e mm)"
      using True by (simp add: gate_e_result_def)
    ultimately have "\<not> ?all" using path by blast
    then show ?thesis unfolding if_P [OF True] by blast
  next
    case False
    show ?thesis unfolding if_not_P [OF False] by (rule refl)
  qed
  have loop': "main_loop e (args_require_motion a) mm gf gfd images True = Inr (loop_out, ?all)"
    using loop unfolding loop_all .
  have "main e a =
     Inr (motion_out @ loop_out
          @ [rule_line,
             ''BACKGROUND VISIBILITY VERIFICATION RESULT: ''
               @ status_text (if args_require_motion a \<and> mm = None then False else ?all),
             rule_line],
          if (if args_require_motion a \<and> mm = None then False else ?all) then 0 else 1)"
    by (simp only: main_def inputs motion gate_f loop' sum.case prod.case Let_def)
  then show ?thesis unfolding forced by blast
qed

text \<open>
  C1. When the arguments name at least one image and the motion frames are read without
  an exception, \<open>main\<close> returns an exit code that is 0 exactly when every gate result
  of every image has passed and gate F has passed, and 1 otherwise. The results of an
  image are those of gates A, B, C and D, followed by that of gate E when motion is
  required. The verdict line printed before the closing rule reads \<^verbatim>\<open>PASS\<close> exactly
  when the exit code is 0.
\<close>

theorem main_verdict:
  assumes "main_inputs e a = Inr (images, base_dir)"
    and "main_motion e a base_dir = Inr (motion_out, motion_metrics)"
  shows "\<exists>out code gate_f_passed gate_f_details.
      main e a = Inr (out, code)
    \<and> main_gate_f e (main_level_paths e base_dir) = Inr (gate_f_passed, gate_f_details)
    \<and> (code = 0 \<longleftrightarrow>
         (\<forall>path\<in>set images.
            \<forall>r\<in>set (image_results e path (args_require_motion a) motion_metrics). passed r)
         \<and> gate_f_passed)
    \<and> (\<forall>path\<in>set images.
          verify_image e path (args_require_motion a) motion_metrics =
            Inr (image_results e path (args_require_motion a) motion_metrics)
          \<and> map name (image_results e path (args_require_motion a) motion_metrics) =
              [''Gate A'', ''Gate B'', ''Gate C'', ''Gate D'']
              @ (if args_require_motion a then [''Gate E''] else []))
    \<and> images \<noteq> []
    \<and> last (butlast out) =
         ''BACKGROUND VISIBILITY VERIFICATION RESULT: '' @ (if code = 0 then ''PASS'' else ''FAIL'')
    \<and> (code = 0 \<or> code = 1)
    \<and> exit_code (main e a) = code"
proof -
  obtain gf gfd where gate_f: "main_gate_f e (main_level_paths e base_dir) = Inr (gf, gfd)"
    using main_gate_f_total by blast
  let ?all = "(\<forall>path\<in>set images.
      \<forall>r\<in>set (image_results e path (args_require_motion a) motion_metrics). passed r) \<and> gf"
  obtain loop_out where m: "main e a =
     Inr (motion_out @ loop_out
          @ [rule_line,
             ''BACKGROUND VISIBILITY VERIFICATION RESULT: '' @ status_text ?all,
             rule_line],
          if ?all then 0 else 1)"
    using main_result [OF assms gate_f] by blast
  let ?out = "motion_out @ loop_out
          @ [rule_line,
             ''BACKGROUND VISIBILITY VERIFICATION RESULT: '' @ status_text ?all,
             rule_line]"
  let ?code = "if ?all then 0 else 1 :: int"
  have 1: "?code = 0 \<longleftrightarrow> ?all" by simp
  have 2: "\<forall>path\<in>set images.
          verify_image e path (args_require_motion a) motion_metrics =
            Inr (image_results e path (args_require_motion a) motion_metrics)
          \<and> map name (image_results e path (args_require_motion a) motion_metrics) =
              [''Gate A'', ''Gate B'', ''Gate C'', ''Gate D'']
              @ (if args_require_motion a then [''Gate E''] else [])"
    using image_results_eq image_results_names by blast
  have 3: "images \<noteq> []" using assms(1) by (rule main_inputs_nonempty)
  have "butlast ?out = motion_out @ loop_out
          @ [rule_line, ''BACKGROUND VISIBILITY VERIFICATION RESULT: '' @ status_text ?all]"
    by (simp add: butlast_append)
  then have 4: "last (butlast ?out) =
      ''BACKGROUND VISIBILITY VERIFICATION RESULT: '' @ (if ?code = 0 then ''PASS'' else ''FAIL'')"
    by (simp add: status_text_def)
  have 5: "?code = 0 \<or> ?code = 1" by simp
  have 6: "exit_code (main e a) = ?code" by (simp add: m exit_code_def)
  show ?thesis
    apply (rule exI [of _ ?out])
    apply (rule exI [of _ ?code])
    apply (rule exI [of _ gf])
    apply (rule exI [of _ gfd])
    using m gate_f 1 2 3 4 5 6 by blast
qed

theorem main_verdict_witness:
  "main_inputs sample_ext sample_args = Inr ([''shots/level-1.png''], ''shots'')
   \<and> main_motion sample_ext sample_args ''shots'' =
       Inr ([''ERROR: Motion frames missing. Require >= 3 frames in motion directory.'',
             ''Expected motion directory under screenshots (e.g., <dir>/motion).''], None)
   \<and> exit_code (main sample_ext sample_args) = 1"
proof -
  from main_verdict [OF sample_inputs sample_motion]
  obtain out :: "string list" and code gf gfd where
    m: "main sample_ext sample_args = Inr (out, code)"
    and g: "main_gate_f sample_ext (main_level_paths sample_ext ''shots'') = Inr (gf, gfd)"
    and c: "code = 0 \<longleftrightarrow>
         (\<forall>path\<in>set [''shots/level-1.png''].
            \<forall>r\<in>set (image_results sample_ext path (args_require_motion sample_args) None). passed r)
         \<and> gf"
    and d: "code = 0 \<or> code = 1"
    and x: "exit_code (main sample_ext sample_args) = code"
    by blast
  from g have "\<not> gf" by (simp add: sample_levels sample_gate_f)
  with c d x show ?thesis by (simp add: sample_inputs sample_motion)
qed

subsection \<open>C7: missing frames and missing levels\<close>

lemma main_motion_unavailable:
  assumes "args_require_motion a" "motion_unavailable e a base_dir"
  shows "\<exists>motion_out. main_motion e a base_dir = Inr (motion_out, None)
     \<and> motion_out \<noteq> [] \<and> take 30 (hd motion_out) = ''ERROR: Motion frames missing. ''"
  using assms
  by (auto simp: main_motion_def motion_unavailable_def Let_def split: option.splits)

lemma main_exit_fail:
  assumes inputs: "main_inputs e a = Inr (images, base_dir)"
    and motion: "main_motion e a base_dir = Inr (motion_out, mm)"
    and gate_f: "main_gate_f e (main_level_paths e base_dir) = Inr (gf, gfd)"
    and fails: "\<not> ((\<forall>path\<in>set images.
        \<forall>r\<in>set (image_results e path (args_require_motion a) mm). passed r) \<and> gf)"
  shows "\<exists>out. main e a = Inr (out, 1)
     \<and> last (butlast out) = ''BACKGROUND VISIBILITY VERIFICATION RESULT: FAIL''"
proof -
  from main_result [OF inputs motion gate_f] obtain loop_out where
    "main e a = Inr (motion_out @ loop_out
          @ [rule_line, ''BACKGROUND VISIBILITY VERIFICATION RESULT: '' @ status_text False,
             rule_line], 1)"
    using fails by auto
  then show ?thesis by (simp add: status_text_def butlast_append)
qed

lemma gate_f_missing:
  assumes "lp 1 = None \<or> lp 10 = None \<or> lp 20 = None"
  shows "gate_f_theme_separation e lp =
       Inl (ValueError (''Missing required level screenshots: ''
              @ py_str_int_list (filter (\<lambda>lvl. lp lvl = None) [1, 10, 20])))"
    and "main_gate_f e lp =
       Inr (False, [''Missing required level screenshots: ''
              @ py_str_int_list (filter (\<lambda>lvl. lp lvl = None) [1, 10, 20])])"
proof -
  have "filter (\<lambda>lvl. lp lvl = None) [1, 10, 20] \<noteq> []"
    using assms by auto
  then show "gate_f_theme_separation e lp =
       Inl (ValueError (''Missing required level screenshots: ''
              @ py_str_int_list (filter (\<lambda>lvl. lp lvl = None) [1, 10, 20])))"
    by (simp add: gate_f_theme_separation_def required_levels_def Let_def del: filter.simps)
  then show "main_gate_f e lp =
       Inr (False, [''Missing required level screenshots: ''
              @ py_str_int_list (filter (\<lambda>lvl. lp lvl = None) [1, 10, 20])])"
    by (simp add: main_gate_f_def del: filter.simps)
qed

text \<open>
  C7. In a run of \<open>main\<close> that has its images: when motion is required and is
  unavailable, \<open>main\<close> prints an error about the missing frames, every image gets a
  fifth result named Gate E that has not passed and whose details say that the motion
  frames are missing and at least three are needed, and \<open>main\<close> prints the verdict
  \<^verbatim>\<open>FAIL\<close> and returns 1. When one of the levels 1, 10 and 20 has no screenshot,
  \<open>gate_f_theme_separation\<close> raises a \<^verbatim>\<open>ValueError\<close> whose message lists the missing
  levels, \<open>main\<close> records gate F as not passed with that message as its detail, and
  the exit code is 1.
\<close>

theorem missing_data_fails:
  assumes "main_inputs e a = Inr (images, base_dir)"
  shows "(args_require_motion a \<and> motion_unavailable e a base_dir \<longrightarrow>
        (\<exists>motion_out. main_motion e a base_dir = Inr (motion_out, None)
           \<and> motion_out \<noteq> [] \<and> take 30 (hd motion_out) = ''ERROR: Motion frames missing. '')
      \<and> (\<forall>path\<in>set images.
            verify_image e path True None = Inr (image_results e path True None)
            \<and> length (image_results e path True None) = 5
            \<and> image_results e path True None ! 4 = gate_e_missing)
      \<and> (\<exists>out. main e a = Inr (out, 1)
            \<and> last (butlast out) = ''BACKGROUND VISIBILITY VERIFICATION RESULT: FAIL''))
    \<and> (\<forall>lp. lp 1 = None \<or> lp 10 = None \<or> lp 20 = None \<longrightarrow>
          gate_f_theme_separation e lp =
            Inl (ValueError (''Missing required level screenshots: ''
                   @ py_str_int_list (filter (\<lambda>lvl. lp lvl = None) [1, 10, 20])))
          \<and> main_gate_f e lp =
            Inr (False, [''Missing required level screenshots: ''
                   @ py_str_int_list (filter (\<lambda>lvl. lp lvl = None) [1, 10, 20])]))
    \<and> (main_level_paths e base_dir 1 = None \<or> main_level_paths e base_dir 10 = None
          \<or> main_level_paths e base_dir 20 = None \<longrightarrow>
        exit_code (main e a) = 1)"
proof -
  have 1: "(\<exists>motion_out. main_motion e a base_dir = Inr (motion_out, None)
           \<and> motion_out \<noteq> [] \<and> take 30 (hd motion_out) = ''ERROR: Motion frames missing. '')
      \<and> (\<forall>path\<in>set images.
            verify_image e path True None = Inr (image_results e path True None)
            \<and> length (image_results e path True None) = 5
            \<and> image_results e path True None ! 4 = gate_e_missing)
      \<and> (\<exists>out. main e a = Inr (out, 1)
            \<and> last (butlast out) = ''BACKGROUND VISIBILITY VERIFICATION RESULT: FAIL'')"
    if rm: "args_require_motion a" and un: "motion_unavailable e a base_dir"
  proof -
    from main_motion_unavailable [OF rm un] obtain motion_out where
      mo: "main_motion e a base_dir = Inr (motion_out, None)"
      and mo': "motion_out \<noteq> [] \<and> take 30 (hd motion_out) = ''ERROR: Motion frames missing. ''"
      by blast
    have e: "gate_e_result e None = gate_e_missing"
      by (simp add: gate_e_result_def gate_e_missing_def)
    have len: "length (image_results e path True None) = 5" for path
      using arg_cong [OF image_results_names [of e path True None], of length] by simp
    have res: "\<forall>path\<in>set images.
            verify_image e path True None = Inr (image_results e path True None)
            \<and> length (image_results e path True None) = 5
            \<and> image_results e path True None ! 4 = gate_e_missing"
      using image_results_eq [of e _ True None] image_results_gate_e [of e _ None] len e by simp
    obtain gf gfd where gate_f: "main_gate_f e (main_level_paths e base_dir) = Inr (gf, gfd)"
      using main_gate_f_total by blast
    obtain path where path: "path \<in> set images"
      using main_inputs_nonempty [OF assms] by (cases images) auto
    have "gate_e_missing \<in> set (image_results e path True None)"
      using gate_e_in_results [of e None path] e by simp
    moreover have "\<not> passed gate_e_missing" by (simp add: gate_e_missing_def)
    ultimately have "\<not> ((\<forall>path\<in>set images.
        \<forall>r\<in>set (image_results e path (args_require_motion a) None). passed r) \<and> gf)"
      using path rm by auto
    from main_exit_fail [OF assms mo gate_f this] mo mo' res show ?thesis by blast
  qed
  have 2: "exit_code (main e a) = 1"
    if miss: "main_level_paths e base_dir 1 = None \<or> main_level_paths e base_dir 10 = None
          \<or> main_level_paths e base_dir 20 = None"
  proof (cases "main_motion e a base_dir")
    case (Inl err)
    then show ?thesis by (simp add: main_def assms exit_code_def)
  next
    case (Inr r)
    obtain motion_out mm where r: "r = (motion_out, mm)" by (cases r)
    have mo: "main_motion e a base_dir = Inr (motion_out, mm)" using Inr r by simp
    from main_exit_fail [OF assms mo gate_f_missing(2) [OF miss]]
    show ?thesis by (auto simp: exit_code_def)
  qed
  show ?thesis
    apply (rule conjI)
     apply (rule impI, erule conjE, rule 1, assumption, assumption)
    apply (rule conjI)
     apply (intro allI impI conjI gate_f_missing; assumption)
    apply (rule impI, rule 2, assumption)
    done
qed

theorem missing_data_fails_witness:
  "main_inputs sample_ext sample_args = Inr ([''shots/level-1.png''], ''shots'')
   \<and> args_require_motion sample_args
   \<and> motion_unavailable sample_ext sample_args ''shots''
   \<and> verify_image sample_ext ''shots/level-1.png'' True None =
       Inr (image_results sample_ext ''shots/level-1.png'' True None)
   \<and> image_results sample_ext ''shots/level-1.png'' True None ! 4 = gate_e_missing
   \<and> main_level_paths sample_ext ''shots'' 10 = None
   \<and> gate_f_theme_separation sample_ext (main_level_paths sample_ext ''shots'') =
       Inl (ValueError ''Missing required level screenshots: [1, 10, 20]'')
   \<and> exit_code (main sample_ext sample_args) = 1"
proof -
  have rm: "args_require_motion sample_args" by (simp add: sample_args_def)
  have un: "motion_unavailable sample_ext sample_args ''shots''"
    by (simp add: motion_unavailable_def sample_pick)
  have lv: "main_level_paths sample_ext ''shots'' 10 = None"
    by (simp add: sample_levels)
  note t = missing_data_fails [OF sample_inputs]
  from t [THEN conjunct1, rule_format, OF conjI [OF rm un]]
  have p1: "verify_image sample_ext ''shots/level-1.png'' True None =
       Inr (image_results sample_ext ''shots/level-1.png'' True None)
     \<and> image_results sample_ext ''shots/level-1.png'' True None ! 4 = gate_e_missing"
    by simp
  from t [THEN conjunct2, THEN conjunct1, rule_format, of "main_level_paths sample_ext ''shots''",
      THEN conjunct1] lv
  have p2: "gate_f_theme_separation sample_ext (main_level_paths sample_ext ''shots'') =
       Inl (ValueError ''Missing required level screenshots: [1, 10, 20]'')"
    by (simp add: sample_levels str_1_10_20)
  from t [THEN conjunct2, THEN conjunct2, rule_format] lv
  have p3: "exit_code (main sample_ext sample_args) = 1"
    by blast
  from sample_inputs rm un lv p1 p2 p3 show ?thesis by (intro conjI) simp_all
qed

subsection \<open>Frame pairs\<close>


lemma wf_luminance: "wf_field w h f \<Longrightarrow> wf_field w h (calculate_luminance f)"
  by (simp add: wf_field_def calculate_luminance_def list_all_iff)










subsection \<open>C4: gate E\<close>




lemma sum_list_zeros: "\<forall>x\<in>set xs. x = (0 :: real) \<Longrightarrow> sum_list xs = 0"
  by (induction xs) auto






subsection \<open>Histograms, norms and correlations\<close>

lemma blurred_hist_eq:
  "blurred_hist e path =
     (if np_norm (level_hist e path) = 0 then level_hist e path else unit_hist e path)"
  by (simp add: blurred_hist_def level_hist_def unit_hist_def image_blurred_def image_luma_def
      Let_def)


lemma np_histogram_nonneg: "x \<in> set (np_histogram arr bins lo hi) \<Longrightarrow> 0 \<le> x"
  by (auto simp: np_histogram_def)

lemma sum_squares_nonneg: "0 \<le> sum_list (map (\<lambda>v. v * v) (xs :: real list))"
  by (induction xs) auto

lemma sum_squares_zero_iff:
  "sum_list (map (\<lambda>v. v * v) (xs :: real list)) = 0 \<longleftrightarrow> (\<forall>x\<in>set xs. x = 0)"
proof (induction xs)
  case Nil
  then show ?case by simp
next
  case (Cons x xs)
  have "0 \<le> x * x" by simp
  with sum_squares_nonneg [of xs] Cons show ?case
    by (auto simp: add_nonneg_eq_0_iff)
qed

lemma np_norm_zero_iff: "np_norm xs = 0 \<longleftrightarrow> (\<forall>x\<in>set xs. x = 0)"
  by (simp add: np_norm_def sum_squares_zero_iff)

lemma np_norm_nonneg: "0 \<le> np_norm xs"
  by (simp add: np_norm_def sum_squares_nonneg)





lemma correlation_zeros_left: "correlation (replicate n 0) ys = 0"
proof -
  have "\<forall>x\<in>set (map2 (*) (replicate n 0) ys). x = (0 :: real)"
    by (auto simp: set_zip)
  then show ?thesis unfolding correlation_def by (rule sum_list_zeros)
qed

lemma correlation_zeros_right: "correlation xs (replicate n 0) = 0"
proof -
  have "\<forall>x\<in>set (map2 (*) xs (replicate n 0)). x = (0 :: real)"
    by (auto simp: set_zip)
  then show ?thesis unfolding correlation_def by (rule sum_list_zeros)
qed


lemma np_histogram_out_of_range:
  assumes "\<forall>v\<in>set (concat arr). v < lo \<or> hi < v"
  shows "np_histogram arr bins lo hi = replicate bins 0"
proof -
  have "filter (\<lambda>v. lo \<le> v \<and> v \<le> hi \<and> bin_index v bins lo hi = i) (concat arr) = []" for i
    using assms by (auto simp: filter_empty_conv simp del: set_concat)
  then show ?thesis
    by (simp add: np_histogram_def map_replicate_const del: set_concat)
qed


subsection \<open>C5: gate F\<close>

lemma gate_f_present:
  assumes "lp 1 = Some p1" "lp 10 = Some p10" "lp 20 = Some p20"
  shows "gate_f_theme_separation e lp =
     Inr (correlation (blurred_hist e p1) (blurred_hist e p10),
          correlation (blurred_hist e p10) (blurred_hist e p20),
          correlation (blurred_hist e p1) (blurred_hist e p10) \<le> 0.75,
          correlation (blurred_hist e p10) (blurred_hist e p20) \<le> 0.75)"
  using assms
  by (simp add: gate_f_theme_separation_def required_levels_def Let_def
      GATE_F_CORRELATION_MAX_def)







subsection \<open>C10: an all-zero histogram\<close>

lemma zero_hist_unnormalized:
  assumes "level_hist e p = replicate 64 0"
  shows "np_norm (level_hist e p) = 0" and "blurred_hist e p = replicate 64 0"
proof -
  show n: "np_norm (level_hist e p) = 0"
    unfolding np_norm_zero_iff assms by simp
  show "blurred_hist e p = replicate 64 0"
    unfolding blurred_hist_eq if_P [OF n] by (rule assms)
qed

text \<open>
  C10. When the levels 1, 10 and 20 each have a screenshot: a screenshot whose blurred
  luminance has no value in \<open>[0, 255]\<close> has the all-zero histogram; an all-zero
  histogram has norm 0, is returned by \<open>blurred_hist\<close> as it is, and its dot product
  with any vector is 0. So gate F returns correlation 0 and a true pass flag for every
  pair that holds such a screenshot, and returns a result, not an error; when it is the
  middle screenshot, both pairs pass and \<open>main\<close> records gate F as passed.
\<close>

theorem zero_histogram_passes:
  assumes "lp 1 = Some p1" and "lp 10 = Some p10" and "lp 20 = Some p20"
  shows "(\<forall>p. (\<forall>v\<in>set (concat (image_blurred e p)). v < 0 \<or> 255 < v) \<longrightarrow>
            level_hist e p = replicate 64 0)
    \<and> (\<forall>p. level_hist e p = replicate 64 0 \<longrightarrow>
            np_norm (level_hist e p) = 0 \<and> blurred_hist e p = replicate 64 0
            \<and> (\<forall>h. correlation (blurred_hist e p) h = 0 \<and> correlation h (blurred_hist e p) = 0))
    \<and> (level_hist e p1 = replicate 64 0 \<longrightarrow>
          (\<exists>c f. gate_f_theme_separation e lp = Inr (0, c, True, f)))
    \<and> (level_hist e p10 = replicate 64 0 \<longrightarrow>
          gate_f_theme_separation e lp = Inr (0, 0, True, True)
          \<and> (\<exists>gate_f_details. main_gate_f e lp = Inr (True, gate_f_details)))
    \<and> (level_hist e p20 = replicate 64 0 \<longrightarrow>
          (\<exists>c f. gate_f_theme_separation e lp = Inr (c, 0, f, True)))"
proof -
  note g = gate_f_present [OF assms, of e]
  have 1: "level_hist e p = replicate 64 0"
    if "\<forall>v\<in>set (concat (image_blurred e p)). v < 0 \<or> 255 < v" for p
    unfolding level_hist_def using that by (rule np_histogram_out_of_range)
  have 2: "np_norm (level_hist e p) = 0 \<and> blurred_hist e p = replicate 64 0
            \<and> (\<forall>h. correlation (blurred_hist e p) h = 0 \<and> correlation h (blurred_hist e p) = 0)"
    if z: "level_hist e p = replicate 64 0" for p
    using zero_hist_unnormalized [OF z]
    by (simp add: correlation_zeros_left correlation_zeros_right)
  have 3: "\<exists>c f. gate_f_theme_separation e lp = Inr (0, c, True, f)"
    if z: "level_hist e p1 = replicate 64 0"
    using g by (simp add: zero_hist_unnormalized(2) [OF z] correlation_zeros_left)
  have 4: "gate_f_theme_separation e lp = Inr (0, 0, True, True)
          \<and> (\<exists>gate_f_details. main_gate_f e lp = Inr (True, gate_f_details))"
    if z: "level_hist e p10 = replicate 64 0"
  proof -
    have "gate_f_theme_separation e lp = Inr (0, 0, True, True)"
      using g by (simp add: zero_hist_unnormalized(2) [OF z] correlation_zeros_left
          correlation_zeros_right)
    then show ?thesis by (simp add: main_gate_f_def)
  qed
  have 5: "\<exists>c f. gate_f_theme_separation e lp = Inr (c, 0, f, True)"
    if z: "level_hist e p20 = replicate 64 0"
    using g by (simp add: zero_hist_unnormalized(2) [OF z] correlation_zeros_right)
  show ?thesis
    apply (intro conjI)
    apply (intro allI impI, rule 1, assumption)
    apply (intro allI impI, rule 2, assumption)
    apply (rule impI, rule 3, assumption)
    apply (rule impI, rule 4, assumption)
    apply (rule impI, rule 5, assumption)
    done
qed

lemma out_of_range_blurred: "image_blurred out_of_range_ext p = [[256]]"
  by (simp add: image_blurred_def image_luma_def out_of_range_ext_def sample_ext_def
      calculate_luminance_def)

theorem zero_histogram_passes_witness:
  "sample_levels_map 1 = Some ''level-1.png'' \<and> sample_levels_map 10 = Some ''level-10.png''
   \<and> sample_levels_map 20 = Some ''level-20.png''
   \<and> image_blurred out_of_range_ext ''level-10.png'' = [[256]]
   \<and> level_hist out_of_range_ext ''level-10.png'' = replicate 64 0
   \<and> gate_f_theme_separation out_of_range_ext sample_levels_map = Inr (0, 0, True, True)"
proof -
  have l1: "sample_levels_map 1 = Some ''level-1.png''"
    and l10: "sample_levels_map 10 = Some ''level-10.png''"
    and l20: "sample_levels_map 20 = Some ''level-20.png''"
    by (simp_all add: sample_levels_map_def)
  have r: "\<forall>v\<in>set (concat (image_blurred out_of_range_ext ''level-10.png'')). v < 0 \<or> 255 < v"
    by (simp add: out_of_range_blurred)
  note t = zero_histogram_passes [OF l1 l10 l20, of out_of_range_ext]
  from t [THEN conjunct1, THEN spec, of "''level-10.png''", THEN mp, OF r]
  have z: "level_hist out_of_range_ext ''level-10.png'' = replicate 64 0" .
  from t [THEN conjunct2, THEN conjunct2, THEN conjunct2, THEN conjunct1, THEN mp, OF z,
      THEN conjunct1]
  have g: "gate_f_theme_separation out_of_range_ext sample_levels_map = Inr (0, 0, True, True)" .
  show ?thesis
    apply (intro conjI)
    apply (rule l1)
    apply (rule l10)
    apply (rule l20)
    apply (rule out_of_range_blurred)
    apply (rule z)
    apply (rule g)
    done
qed

subsection \<open>The path of gate B\<close>
















subsection \<open>The samples and the count of gate B\<close>










subsection \<open>C3: gate B\<close>






end
